theory Spec2Isabelle
  imports Main "HOL-Library.Sublist" "HOL-Library.Char_ord" "HOL-Library.List_Lexorder"
begin

section \<open>The dump generator of generate\_complete\_dump.py\<close>

text \<open>
  The script asks a PostgreSQL server, through one \<^verbatim>\<open>psql\<close> process per query, for the
  base tables of schema \<^verbatim>\<open>public\<close>, and for each of them (except \<^verbatim>\<open>sessions\<close>) for its
  columns, its row count and its rows rendered as INSERT statements; it collects the text
  in the list \<^verbatim>\<open>dump_content\<close> and writes it, joined by newlines, to one file.

  Modelling decisions.
  \<^item> A Python \<^verbatim>\<open>str\<close> is a \<open>string\<close>; a character is a code point below 256.
  \<^item> The database is the function \<open>db\<close> from the query text to what the \<^verbatim>\<open>psql\<close> process
    did with it: it completed with exit status 0 and some standard output, or it ended with
    another status, which \<^verbatim>\<open>subprocess.run(..., check=True)\<close> turns into
    \<^verbatim>\<open>CalledProcessError\<close>. The answer to a query does not change during one run.
  \<^item> What the script does to the outside is kept in a record: the lines it printed, the
    queries it ran, and the files of the working directory.
  \<^item> \<^verbatim>\<open>str.upper\<close>, which Python computes from its tables of the Unicode characters, is a
    parameter (\<open>upper\<close>) of the run: no property depends on what it maps a name to.
  \<^item> The process can be started and the file can be opened: an \<^verbatim>\<open>OSError\<close> of
    \<^verbatim>\<open>subprocess.run\<close> or \<^verbatim>\<open>open\<close> is outside the model.
  \<^item> The f-string of \<^verbatim>\<open>generate_insert_statements\<close> has a backslash inside a replacement
    field, which Python accepts from version 3.12 on; the model is the script as that
    version runs it.
\<close>

subsection \<open>Python's string methods\<close>

text \<open>
  \<^verbatim>\<open>str.isspace\<close> on one character, for the code points below 256: tab to carriage return,
  the four separators 0x1C to 0x1F, the space, NEL (0x85) and the no-break space (0xA0).
\<close>

definition isspace :: "char \<Rightarrow> bool" where
  "isspace c \<longleftrightarrow>
     (let n = (of_char c :: nat)
      in (9 \<le> n \<and> n \<le> 13) \<or> (28 \<le> n \<and> n \<le> 32) \<or> n = 133 \<or> n = 160)"

text \<open>\<^verbatim>\<open>s.strip()\<close>: leading and trailing whitespace removed.\<close>

definition strip :: "string \<Rightarrow> string" where
  "strip s = rev (dropWhile isspace (rev (dropWhile isspace s)))"

text \<open>\<^verbatim>\<open>s.split('\n')\<close>: the pieces between newlines; never the empty list.\<close>

fun split_nl :: "string \<Rightarrow> string list" where
  "split_nl [] = [[]]"
| "split_nl (c # cs) =
     (if c = CHR 0x0A then [] # split_nl cs
      else (let rest = split_nl cs in (c # hd rest) # tl rest))"

text \<open>\<^verbatim>\<open>sep.join(xs)\<close>.\<close>

fun join :: "string \<Rightarrow> string list \<Rightarrow> string" where
  "join sep [] = []"
| "join sep [x] = x"
| "join sep (x # y # ys) = x @ sep @ join sep (y # ys)"

text \<open>
  \<^verbatim>\<open>s.upper()\<close> is not defined here. What it returns is decided by Python's tables of
  the Unicode characters: it raises the ASCII letters, but also the letters beyond them
  (0xE9 becomes 0xC9, 0xDF becomes ``SS'', 0xFF a code point above 255). The script calls it
  once, on the table name in the banner, so the model takes it as the parameter \<open>upper\<close> of
  \<open>banner_line\<close> and of everything that builds a banner, and every property below holds
  whatever it maps a name to. As everywhere in the model a string has the code points
  below 256 only, so a property says nothing of a name whose upper case leaves them.
\<close>

text \<open>\<^verbatim>\<open>s.endswith(t)\<close>.\<close>

definition endswith :: "string \<Rightarrow> string \<Rightarrow> bool" where
  "endswith s t \<longleftrightarrow> suffix t s"

text \<open>
  \<^verbatim>\<open>[x.strip() for x in r.split('\n') if x.strip()]\<close>, the comprehension that reads the
  table list and the column list.
\<close>

definition stripped_lines :: "string \<Rightarrow> string list" where
  "stripped_lines r = map strip (filter (\<lambda>x. strip x \<noteq> []) (split_nl r))"

subsection \<open>The outside world\<close>

datatype proc_result =
    Completed string                  \<comment> \<open>exit status 0; the captured standard output\<close>
  | CalledProcessError string string  \<comment> \<open>\<^verbatim>\<open>str(e)\<close> and \<^verbatim>\<open>e.stderr\<close>\<close>

type_synonym database = "string \<Rightarrow> proc_result"

record world =
  printed :: "string list"
  executed :: "string list"
  files :: "string \<rightharpoonup> string"

definition print :: "string \<Rightarrow> world \<Rightarrow> world" where
  "print line w = w\<lparr>printed := printed w @ [line]\<rparr>"

subsection \<open>run\_sql\_query\<close>

definition run_sql_query :: "database \<Rightarrow> string \<Rightarrow> world \<Rightarrow> string option \<times> world" where
  "run_sql_query db query w =
     (let w1 = w\<lparr>executed := executed w @ [query]\<rparr>
      in case db query of
           Completed out \<Rightarrow> (Some (strip out), w1)
         | CalledProcessError e err \<Rightarrow>
             (None, print (''stderr: '' @ err) (print (''Error running query: '' @ e) w1)))"

text \<open>Python's truth value of an \<^verbatim>\<open>Optional[str]\<close>: \<^verbatim>\<open>None\<close> and \<^verbatim>\<open>""\<close> are false.\<close>

fun truthy :: "string option \<Rightarrow> bool" where
  "truthy None = False"
| "truthy (Some s) = (s \<noteq> [])"

subsection \<open>generate\_insert\_statements\<close>

definition direct_quoted :: "string \<Rightarrow> bool" where
  "direct_quoted col \<longleftrightarrow>
     endswith col ''::text'' \<or> col \<in> set [''id'', ''created_at'', ''updated_at'']"

definition column_expr :: "string \<Rightarrow> string" where
  "column_expr col =
     (if direct_quoted col then ''quote_literal('' @ col @ '')''
      else ''COALESCE(quote_literal('' @ col @ ''::text), 'NULL')'')"

definition insert_query :: "string \<Rightarrow> string list \<Rightarrow> string" where
  "insert_query table_name columns =
     ''\<newline>    SELECT 'INSERT INTO '' @ table_name @ '' VALUES (' ||\<newline>           ''
     @ join '' || ',' || '' (map column_expr columns)
     @ '' ||\<newline>           ');' as insert_statement\<newline>    FROM '' @ table_name
     @ '';\<newline>    ''"

definition generate_insert_statements ::
  "database \<Rightarrow> string \<Rightarrow> string list \<Rightarrow> world \<Rightarrow> string option \<times> world" where
  "generate_insert_statements db table_name columns w =
     run_sql_query db (insert_query table_name columns)
       (print (''Generating INSERT statements for '' @ table_name @ ''...'') w)"

subsection \<open>main\<close>

definition tables_query :: string where
  "tables_query =
     ''\<newline>    SELECT table_name \<newline>    FROM information_schema.tables \<newline>''
     @ ''    WHERE table_schema = 'public' \<newline>    AND table_type = 'BASE TABLE'\<newline>''
     @ ''    ORDER BY table_name;\<newline>    ''"

definition columns_query :: "string \<Rightarrow> string" where
  "columns_query table =
     ''\<newline>        SELECT column_name \<newline>        FROM information_schema.columns \<newline>''
     @ ''        WHERE table_name = '' @ [CHR 0x27] @ table @ [CHR 0x27]
     @ '' \<newline>        ORDER BY ordinal_position;\<newline>        ''"

definition count_query :: "string \<Rightarrow> string" where
  "count_query table = ''SELECT COUNT(*) FROM '' @ table @ '';''"

definition rule_line :: string where
  "rule_line = ''-- ============================================================================''"

definition header :: "string list" where
  "header =
     [''-- COMPLETE PRODUCTION DATABASE DUMP'',
      ''-- Generated: August 27, 2025'',
      ''-- Contains ALL production data'',
      [],
      ''-- Disable foreign key checks for import'',
      ''SET session_replication_role = replica;'',
      []]"

definition footer :: "string list" where
  "footer =
     [rule_line,
      ''-- Re-enable foreign key checks'',
      rule_line,
      ''SET session_replication_role = DEFAULT;'',
      [],
      ''-- Import complete! All production data has been restored.'']"

definition output_file :: string where
  "output_file = ''complete_production_dump.sql''"

definition banner_line :: "(string \<Rightarrow> string) \<Rightarrow> string \<Rightarrow> string \<Rightarrow> string" where
  "banner_line upper table row_count = ''-- '' @ upper table @ '' ('' @ row_count @ '' records)''"

text \<open>
  The lines of \<^verbatim>\<open>insert_statements\<close> that the inner loop appends; nothing when the value is
  \<^verbatim>\<open>None\<close> or empty.
\<close>

definition statement_lines :: "string option \<Rightarrow> string list" where
  "statement_lines insert_statements =
     (if truthy insert_statements then stripped_lines (the insert_statements) else [])"

text \<open>
  One pass of the loop over \<^verbatim>\<open>tables\<close>: from \<^verbatim>\<open>dump_content\<close> and the world before it to
  both after it. The two \<^verbatim>\<open>continue\<close> statements are the two branches that return
  \<^verbatim>\<open>dump_content\<close> as it was.
\<close>

definition loop_body ::
  "(string \<Rightarrow> string) \<Rightarrow> database \<Rightarrow> string \<Rightarrow> string list \<times> world \<Rightarrow> string list \<times> world" where
  "loop_body upper db table st =
     (let (dump_content, w) = st
      in if table = ''sessions'' then (dump_content, w)
         else
           let w1 = print (''Processing table: '' @ table) w;
               (columns_result, w2) = run_sql_query db (columns_query table) w1
           in if \<not> truthy columns_result then (dump_content, w2)
              else
                let columns = stripped_lines (the columns_result);
                    (count_result, w3) = run_sql_query db (count_query table) w2;
                    row_count = (if truthy count_result then strip (the count_result) else ''0'');
                    dump_content1 =
                      dump_content @ [rule_line, banner_line upper table row_count, rule_line];
                    (insert_statements, w4) = generate_insert_statements db table columns w3;
                    dump_content2 = dump_content1 @ statement_lines insert_statements
                in (dump_content2 @ [[]], w4))"

fun process_tables ::
  "(string \<Rightarrow> string) \<Rightarrow> database \<Rightarrow> string list \<Rightarrow> string list \<times> world \<Rightarrow> string list \<times> world" where
  "process_tables upper db [] st = st"
| "process_tables upper db (table # tables) st =
     process_tables upper db tables (loop_body upper db table st)"

definition main :: "(string \<Rightarrow> string) \<Rightarrow> database \<Rightarrow> world \<Rightarrow> world" where
  "main upper db w =
     (let (tables_result, w1) = run_sql_query db tables_query w
      in if \<not> truthy tables_result then print ''Failed to get table list'' w1
         else
           let tables = stripped_lines (the tables_result);
               (dump_content, w2) = process_tables upper db tables (header, w1);
               w3 = w2\<lparr>files := (files w2)(output_file \<mapsto> join ''\<newline>'' (dump_content @ footer))\<rparr>
           in print (''Complete production dump generated: '' @ output_file) w3)"

subsection \<open>Vocabulary for the properties\<close>

text \<open>What \<^verbatim>\<open>run_sql_query\<close> returns for a query; the world is not needed for it.\<close>

definition query_result :: "database \<Rightarrow> string \<Rightarrow> string option" where
  "query_result db q =
     (case db q of Completed out \<Rightarrow> Some (strip out) | CalledProcessError e err \<Rightarrow> None)"

text \<open>
  A table is included when it is not \<^verbatim>\<open>sessions\<close> and its columns query returned text. For an
  included table: its column list, the count shown in its banner, and its section of the
  dump.
\<close>

definition included :: "database \<Rightarrow> string \<Rightarrow> bool" where
  "included db table \<longleftrightarrow>
     table \<noteq> ''sessions'' \<and> truthy (query_result db (columns_query table))"

definition columns_of :: "database \<Rightarrow> string \<Rightarrow> string list" where
  "columns_of db table = stripped_lines (the (query_result db (columns_query table)))"

definition row_count_of :: "database \<Rightarrow> string \<Rightarrow> string" where
  "row_count_of db table =
     (if truthy (query_result db (count_query table))
      then strip (the (query_result db (count_query table))) else ''0'')"

definition statements_of :: "database \<Rightarrow> string \<Rightarrow> string list" where
  "statements_of db table =
     statement_lines (query_result db (insert_query table (columns_of db table)))"

definition section_of :: "(string \<Rightarrow> string) \<Rightarrow> database \<Rightarrow> string \<Rightarrow> string list" where
  "section_of upper db table =
     [rule_line, banner_line upper table (row_count_of db table), rule_line]
     @ statements_of db table @ [[]]"

definition table_lines :: "(string \<Rightarrow> string) \<Rightarrow> database \<Rightarrow> string \<Rightarrow> string list" where
  "table_lines upper db table = (if included db table then section_of upper db table else [])"

text \<open>The lines of the file of a run that writes it.\<close>

definition dump_lines :: "(string \<Rightarrow> string) \<Rightarrow> database \<Rightarrow> string list" where
  "dump_lines upper db =
     header
     @ concat (map (table_lines upper db) (stripped_lines (the (query_result db tables_query))))
     @ footer"

text \<open>The queries that one pass of the loop runs.\<close>

definition table_queries :: "database \<Rightarrow> string \<Rightarrow> string list" where
  "table_queries db table =
     (if table = ''sessions'' then []
      else if \<not> truthy (query_result db (columns_query table)) then [columns_query table]
      else [columns_query table, count_query table,
            insert_query table (columns_of db table)])"

text \<open>
  What a caller of \<^verbatim>\<open>run_sql_query\<close> can tell about an answer by testing its truth value
  first: the text when there is some, and nothing otherwise.
\<close>

definition usable :: "database \<Rightarrow> string \<Rightarrow> string option" where
  "usable db q = (if truthy (query_result db q) then query_result db q else None)"

text \<open>\<open>occurs_in p s\<close>: the text \<open>p\<close> occurs in \<open>s\<close>.\<close>

fun occurs_in :: "string \<Rightarrow> string \<Rightarrow> bool" where
  "occurs_in p [] = (p = [])"
| "occurs_in p (c # cs) = (prefix p (c # cs) \<or> occurs_in p cs)"

text \<open>
  The footer as the specification lists it, with one rule line: five lines.
\<close>

definition footer_as_specified :: "string list" where
  "footer_as_specified =
     [rule_line,
      ''-- Re-enable foreign key checks'',
      ''SET session_replication_role = DEFAULT;'',
      [],
      ''-- Import complete! All production data has been restored.'']"

text \<open>
  The statement lines as the specification describes them: the non-blank lines of the
  returned text, unchanged.
\<close>

definition verbatim_lines :: "string \<Rightarrow> string list" where
  "verbatim_lines text = filter (\<lambda>x. strip x \<noteq> []) (split_nl text)"

subsection \<open>The expressions that the generated query hands to the database\<close>

text \<open>
  Modelled from the spec: the database engine, which evaluates the expression that
  \<^verbatim>\<open>generate_insert_statements\<close> builds for a column, is not part of the repository. The
  specification describes it as a literal-quoting function that turns a value into an SQL
  string literal, a cast to text, and a fallback to the keyword for null
  ``when the quoting step itself yields no value''. So: a column of a row has a value (its
  text) or is null (\<open>None\<close>); the cast and the quoting of null are null; \<^verbatim>\<open>COALESCE\<close> is its
  first argument unless that is null. The quoting of a text is left open (\<open>quote\<close>).

  \<open>column_ast\<close> is the expression of a column as a term, and \<open>render\<close> writes a term as
  text; \<open>render_column_ast\<close> below shows that the text is the one the script builds.
\<close>

datatype sql_expr =
    Column string
  | Text_constant string
  | Cast_to_text sql_expr
  | Quote_literal sql_expr
  | Coalesce sql_expr sql_expr

fun render :: "sql_expr \<Rightarrow> string" where
  "render (Column c) = c"
| "render (Text_constant s) = [CHR 0x27] @ s @ [CHR 0x27]"
| "render (Cast_to_text e) = render e @ ''::text''"
| "render (Quote_literal e) = ''quote_literal('' @ render e @ '')''"
| "render (Coalesce a b) = ''COALESCE('' @ render a @ '', '' @ render b @ '')''"

definition column_ast :: "string \<Rightarrow> sql_expr" where
  "column_ast col =
     (if direct_quoted col then Quote_literal (Column col)
      else Coalesce (Quote_literal (Cast_to_text (Column col))) (Text_constant ''NULL''))"

type_synonym row = "string \<Rightarrow> string option"

fun eval :: "(string \<Rightarrow> string) \<Rightarrow> row \<Rightarrow> sql_expr \<Rightarrow> string option" where
  "eval quote r (Column c) = r c"
| "eval quote r (Text_constant s) = Some s"
| "eval quote r (Cast_to_text e) = eval quote r e"
| "eval quote r (Quote_literal e) = map_option quote (eval quote r e)"
| "eval quote r (Coalesce a b) =
     (case eval quote r a of Some v \<Rightarrow> Some v | None \<Rightarrow> eval quote r b)"

text \<open>The literal of a column in a row, when there is one.\<close>

definition literal_of :: "(string \<Rightarrow> string) \<Rightarrow> row \<Rightarrow> string \<Rightarrow> string option" where
  "literal_of quote r col = eval quote r (column_ast col)"

text \<open>
  The generated query chains these operands with \<^verbatim>\<open>||\<close>: the opening text, the column
  expressions with a comma between them, and the closing text (\<open>insert_query_operands\<close>
  below shows that the query is this chain). In PostgreSQL \<^verbatim>\<open>||\<close> is null as soon as one
  operand is, so the statement of a row is null when one of its operands is.
\<close>

fun intersperse :: "'a \<Rightarrow> 'a list \<Rightarrow> 'a list" where
  "intersperse s [] = []"
| "intersperse s [x] = [x]"
| "intersperse s (x # y # ys) = x # s # intersperse s (y # ys)"

definition operands :: "string \<Rightarrow> string list \<Rightarrow> sql_expr list" where
  "operands table_name columns =
     Text_constant (''INSERT INTO '' @ table_name @ '' VALUES ('')
     # intersperse (Text_constant '','') (map column_ast columns)
     @ [Text_constant '');'']"

fun concat_strict :: "string option list \<Rightarrow> string option" where
  "concat_strict [] = Some []"
| "concat_strict (None # xs) = None"
| "concat_strict (Some x # xs) = map_option ((@) x) (concat_strict xs)"

definition row_statement ::
  "(string \<Rightarrow> string) \<Rightarrow> string \<Rightarrow> string list \<Rightarrow> row \<Rightarrow> string option" where
  "row_statement quote table_name columns r =
     concat_strict (map (eval quote r) (operands table_name columns))"

text \<open>
  What \<^verbatim>\<open>psql -t\<close> prints for the rows of a one-column result: a space and the value on one
  line for each row, nothing for a null value, and an empty line at the end.
\<close>

definition psql_rows :: "string option list \<Rightarrow> string" where
  "psql_rows vs =
     concat (map (\<lambda>v. '' '' @ (case v of None \<Rightarrow> [] | Some x \<Rightarrow> x) @ ''\<newline>'') vs)
     @ ''\<newline>''"

subsection \<open>Example runs\<close>

text \<open>An empty working directory, nothing printed, no query run.\<close>

definition w0 :: world where
  "w0 = \<lparr>printed = [], executed = [], files = Map.empty\<rparr>"

text \<open>
  An instance of \<open>upper\<close> for the examples, whose table names are ASCII: on a string of
  ASCII characters \<^verbatim>\<open>upper()\<close> raises the letters a to z and leaves the rest.
\<close>

definition ascii_upper :: "string \<Rightarrow> string" where
  "ascii_upper s =
     map (\<lambda>c. let n = (of_char c :: nat)
               in if 97 \<le> n \<and> n \<le> 122 then char_of (n - 32) else c) s"

text \<open>A server that cannot be reached: every query fails.\<close>

definition no_database :: database where
  "no_database q =
     CalledProcessError ''Command returned non-zero exit status 2.'' ''connection refused''"

text \<open>
  The scenario of the specification: tables \<^verbatim>\<open>sessions\<close> and \<^verbatim>\<open>users\<close>, the latter with columns
  \<^verbatim>\<open>id\<close>, \<^verbatim>\<open>name\<close>, \<^verbatim>\<open>created_at\<close> and two rows; the second user is called ``sessions''.
  The answers are laid out as \<^verbatim>\<open>psql -t\<close> prints them: one space before each row, an empty
  line at the end.
\<close>

definition users_rows :: string where
  "users_rows =
     '' INSERT INTO users VALUES ('1','ann','2025-01-01');\<newline>''
     @ '' INSERT INTO users VALUES ('2','sessions','2025-01-02');\<newline>\<newline>''"

definition example_db :: database where
  "example_db =
     no_database
       (tables_query := Completed '' sessions\<newline> users\<newline>\<newline>'',
        columns_query ''users'' := Completed '' id\<newline> name\<newline> created_at\<newline>\<newline>'',
        count_query ''users'' := Completed ''     2\<newline>\<newline>'',
        insert_query ''users'' [''id'', ''name'', ''created_at''] := Completed users_rows)"

text \<open>A schema without base tables, and one whose only base table is \<^verbatim>\<open>sessions\<close>.\<close>

definition empty_schema_db :: database where
  "empty_schema_db = no_database (tables_query := Completed ''\<newline>'')"

definition only_sessions_db :: database where
  "only_sessions_db = no_database (tables_query := Completed '' sessions\<newline>\<newline>'')"

text \<open>A table \<^verbatim>\<open>logs\<close> with one column and no rows, whose count query fails.\<close>

definition logs_db :: database where
  "logs_db =
     no_database
       (tables_query := Completed '' logs\<newline>\<newline>'',
        columns_query ''logs'' := Completed '' id\<newline>\<newline>'',
        insert_query ''logs'' [''id''] := Completed ''\<newline>'')"

text \<open>A row whose \<^verbatim>\<open>name\<close> and \<^verbatim>\<open>updated_at\<close> are null.\<close>

definition example_row :: row where
  "example_row = Map.empty (''id'' \<mapsto> ''7'')"

definition example_quote :: "string \<Rightarrow> string" where
  "example_quote s = [CHR 0x27] @ s @ [CHR 0x27]"

text \<open>
  A table \<^verbatim>\<open>one\<close> with the columns \<^verbatim>\<open>id\<close>, \<^verbatim>\<open>name\<close>, \<^verbatim>\<open>updated_at\<close> and that single row; the
  answer to the statement query is what the engine makes of the row.
\<close>

definition one_db :: database where
  "one_db =
     no_database
       (tables_query := Completed '' one\<newline>\<newline>'',
        columns_query ''one'' := Completed '' id\<newline> name\<newline> updated_at\<newline>\<newline>'',
        count_query ''one'' := Completed ''     1\<newline>\<newline>'',
        insert_query ''one'' [''id'', ''name'', ''updated_at''] :=
          Completed (psql_rows
            [row_statement example_quote ''one'' [''id'', ''name'', ''updated_at''] example_row]))"

section \<open>Properties\<close>

subsection \<open>What one query, one pass of the loop and a whole run do\<close>

lemma fst_run_sql_query: "fst (run_sql_query db q w) = query_result db q"
  by (simp add: run_sql_query_def query_result_def split: proc_result.split)

lemma files_run_sql_query: "files (snd (run_sql_query db q w)) = files w"
  by (simp add: run_sql_query_def print_def Let_def split: proc_result.split)

lemma executed_run_sql_query: "executed (snd (run_sql_query db q w)) = executed w @ [q]"
  by (simp add: run_sql_query_def print_def Let_def split: proc_result.split)

lemma run_sql_query_eq:
  "run_sql_query db q w = (query_result db q, snd (run_sql_query db q w))"
  by (metis fst_run_sql_query prod.collapse)

lemma fst_loop_body: "fst (loop_body upper db t (dc, w)) = dc @ table_lines upper db t"
  by (simp add: loop_body_def table_lines_def included_def section_of_def statements_of_def
      columns_of_def row_count_of_def generate_insert_statements_def Let_def
      fst_run_sql_query split_beta)

lemma files_loop_body: "files (snd (loop_body upper db t (dc, w))) = files w"
  by (simp add: loop_body_def generate_insert_statements_def Let_def split_beta
      files_run_sql_query print_def)

lemma executed_loop_body:
  "executed (snd (loop_body upper db t (dc, w))) = executed w @ table_queries db t"
  by (simp add: loop_body_def table_queries_def generate_insert_statements_def Let_def
      split_beta executed_run_sql_query fst_run_sql_query columns_of_def print_def)

lemma fst_process_tables:
  "fst (process_tables upper db ts (dc, w)) = dc @ concat (map (table_lines upper db) ts)"
proof (induction ts arbitrary: dc w)
  case Nil
  show ?case by simp
next
  case (Cons t ts)
  obtain dc' w' where step: "loop_body upper db t (dc, w) = (dc', w')"
    by (cases "loop_body upper db t (dc, w)")
  have "dc' = dc @ table_lines upper db t"
    using fst_loop_body [of upper db t dc w] step by simp
  then show ?case
    using Cons.IH [of dc' w'] step by simp
qed

lemma files_process_tables: "files (snd (process_tables upper db ts (dc, w))) = files w"
proof (induction ts arbitrary: dc w)
  case Nil
  show ?case by simp
next
  case (Cons t ts)
  obtain dc' w' where step: "loop_body upper db t (dc, w) = (dc', w')"
    by (cases "loop_body upper db t (dc, w)")
  have "files w' = files w"
    using files_loop_body [of upper db t dc w] step by simp
  then show ?case
    using Cons.IH [of dc' w'] step by simp
qed

lemma executed_process_tables:
  "executed (snd (process_tables upper db ts (dc, w)))
     = executed w @ concat (map (table_queries db) ts)"
proof (induction ts arbitrary: dc w)
  case Nil
  show ?case by simp
next
  case (Cons t ts)
  obtain dc' w' where step: "loop_body upper db t (dc, w) = (dc', w')"
    by (cases "loop_body upper db t (dc, w)")
  have "executed w' = executed w @ table_queries db t"
    using executed_loop_body [of upper db t dc w] step by simp
  then show ?case
    using Cons.IH [of dc' w'] step by simp
qed

lemma files_main_written:
  assumes "truthy (query_result db tables_query)"
  shows "files (main upper db w) = (files w)(output_file \<mapsto> join ''\<newline>'' (dump_lines upper db))"
proof -
  obtain w1 where r: "run_sql_query db tables_query w = (query_result db tables_query, w1)"
    using run_sql_query_eq by blast
  have f1: "files w1 = files w"
    using files_run_sql_query [of db tables_query w] r by simp
  obtain dc w2 where p: "process_tables upper db (stripped_lines (the (query_result db tables_query))) (header, w1) = (dc, w2)"
    by (cases "process_tables upper db (stripped_lines (the (query_result db tables_query))) (header, w1)")
  have dc: "dc = header @ concat (map (table_lines upper db) (stripped_lines (the (query_result db tables_query))))"
    using fst_process_tables [of upper db "stripped_lines (the (query_result db tables_query))" header w1] p by simp
  have f2: "files w2 = files w1"
    using files_process_tables [of upper db "stripped_lines (the (query_result db tables_query))" header w1] p by simp
  show ?thesis
    using assms by (simp add: main_def r p dc f1 f2 print_def dump_lines_def)
qed

lemma main_aborted:
  assumes "\<not> truthy (query_result db tables_query)"
  shows "files (main upper db w) = files w" and "executed (main upper db w) = executed w @ [tables_query]"
proof -
  obtain w1 where r: "run_sql_query db tables_query w = (query_result db tables_query, w1)"
    using run_sql_query_eq by blast
  have f1: "files w1 = files w"
    using files_run_sql_query [of db tables_query w] r by simp
  have e1: "executed w1 = executed w @ [tables_query]"
    using executed_run_sql_query [of db tables_query w] r by simp
  show "files (main upper db w) = files w"
    using assms by (simp add: main_def r f1 print_def)
  show "executed (main upper db w) = executed w @ [tables_query]"
    using assms by (simp add: main_def r e1 print_def)
qed

lemma executed_main_written:
  assumes "truthy (query_result db tables_query)"
  shows "executed (main upper db w) = executed w @ tables_query
      # concat (map (table_queries db) (stripped_lines (the (query_result db tables_query))))"
proof -
  obtain w1 where r: "run_sql_query db tables_query w = (query_result db tables_query, w1)"
    using run_sql_query_eq by blast
  have e1: "executed w1 = executed w @ [tables_query]"
    using executed_run_sql_query [of db tables_query w] r by simp
  obtain dc w2 where p: "process_tables upper db (stripped_lines (the (query_result db tables_query))) (header, w1) = (dc, w2)"
    by (cases "process_tables upper db (stripped_lines (the (query_result db tables_query))) (header, w1)")
  have e2: "executed w2 = executed w1 @ concat (map (table_queries db) (stripped_lines (the (query_result db tables_query))))"
    using executed_process_tables [of upper db "stripped_lines (the (query_result db tables_query))" header w1] p by simp
  show ?thesis
    using assms by (simp add: main_def r p e1 e2 print_def)
qed

text \<open>The file of a run whose table listing returned text.\<close>

lemma file_of_run:
  assumes "db tables_query = Completed out" and "strip out \<noteq> []"
  shows "files (main upper db w) output_file
       = Some (join ''\<newline>''
           (header @ concat (map (table_lines upper db) (stripped_lines (strip out))) @ footer))"
proof -
  have t: "truthy (query_result db tables_query)"
    using assms by (simp add: query_result_def)
  show ?thesis
    using files_main_written [OF t, where upper = upper and w = w] assms
    by (simp add: dump_lines_def query_result_def)
qed

subsection \<open>Evaluating the examples\<close>

lemma tables_query_neq_count_query: "tables_query \<noteq> count_query t"
  by (simp add: tables_query_def count_query_def)

lemma logs_db_tables: "logs_db tables_query = Completed '' logs\<newline>\<newline>''"
  by (simp add: logs_db_def tables_query_def columns_query_def insert_query_def)

lemma strip_logs: "strip '' logs\<newline>\<newline>'' = ''logs''"
  by (simp add: strip_def isspace_def)

lemma stripped_lines_logs: "stripped_lines ''logs'' = [''logs'']"
  by (simp add: stripped_lines_def strip_def isspace_def Let_def)

lemma strip_eval_1: "strip '' id\<newline>\<newline>'' = ''id''"
  by (simp add: strip_def isspace_def)

lemma stripped_lines_eval_1: "stripped_lines ''id'' = [''id'']"
  by (simp add: stripped_lines_def strip_def isspace_def Let_def)

lemma stripped_lines_eval_2: "stripped_lines (strip '' sessions\<newline> users\<newline>\<newline>'') = [''sessions'', ''users'']"
  by (simp add: stripped_lines_def strip_def isspace_def Let_def)

lemma logs_db_columns: "logs_db (columns_query ''logs'') = Completed '' id\<newline>\<newline>''"
  by (simp add: logs_db_def columns_query_def insert_query_def)

lemma logs_db_insert: "logs_db (insert_query ''logs'' [''id'']) = Completed ''\<newline>''"
  by (simp add: logs_db_def)

lemma logs_db_count: "logs_db (count_query ''logs'') = no_database (count_query ''logs'')"
  by (simp add: logs_db_def columns_query_def insert_query_def count_query_def tables_query_def)

lemma count_query_neq_columns_query: "count_query t \<noteq> columns_query t'"
  by (simp add: count_query_def columns_query_def)

lemma count_query_neq_insert_query: "count_query t \<noteq> insert_query t' cols"
  by (simp add: count_query_def insert_query_def)

lemma upper_logs: "ascii_upper ''logs'' = ''LOGS''"
  by code_simp

lemma upper_users: "ascii_upper ''users'' = ''USERS''"
  by code_simp

lemma included_logs: "included logs_db ''logs''"
  by (simp add: included_def query_result_def logs_db_columns strip_eval_1)

lemma row_count_of_logs: "row_count_of logs_db ''logs'' = ''0''"
  by (simp add: row_count_of_def query_result_def logs_db_count no_database_def)

lemma example_db_tables: "example_db tables_query = Completed '' sessions\<newline> users\<newline>\<newline>''"
  by (simp add: example_db_def tables_query_def columns_query_def count_query_def insert_query_def)

lemma example_db_columns:
  "example_db (columns_query ''users'') = Completed '' id\<newline> name\<newline> created_at\<newline>\<newline>''"
  by (simp add: example_db_def columns_query_def count_query_def insert_query_def)

lemma example_db_count: "example_db (count_query ''users'') = Completed ''     2\<newline>\<newline>''"
  by (simp add: example_db_def count_query_def insert_query_def)

lemma example_db_insert:
  "example_db (insert_query ''users'' [''id'', ''name'', ''created_at'']) = Completed users_rows"
  by (simp add: example_db_def)

lemma columns_of_users: "columns_of example_db ''users'' = [''id'', ''name'', ''created_at'']"
  by (simp add: columns_of_def query_result_def example_db_columns stripped_lines_def strip_def
      isspace_def Let_def)

lemma included_users: "included example_db ''users''"
  by (simp add: included_def query_result_def example_db_columns strip_def isspace_def)

lemma row_count_of_users: "row_count_of example_db ''users'' = ''2''"
  by (simp add: row_count_of_def query_result_def example_db_count strip_def isspace_def)

lemma strip_users_rows:
  "strip users_rows
     = ''INSERT INTO users VALUES ('1','ann','2025-01-01');\<newline>''
       @ '' INSERT INTO users VALUES ('2','sessions','2025-01-02');''"
  by (simp add: users_rows_def strip_def isspace_def)

lemma split_nl_users_rows:
  "split_nl (strip users_rows)
     = [''INSERT INTO users VALUES ('1','ann','2025-01-01');'',
        '' INSERT INTO users VALUES ('2','sessions','2025-01-02');'']"
  by (simp add: strip_users_rows Let_def)

lemma statements_of_users:
  "statements_of example_db ''users''
     = [''INSERT INTO users VALUES ('1','ann','2025-01-01');'',
        ''INSERT INTO users VALUES ('2','sessions','2025-01-02');'']"
proof -
  have ne: "strip users_rows \<noteq> []"
    by (simp add: strip_users_rows)
  have sl: "stripped_lines (strip users_rows)
     = [''INSERT INTO users VALUES ('1','ann','2025-01-01');'',
        ''INSERT INTO users VALUES ('2','sessions','2025-01-02');'']"
    by (simp add: stripped_lines_def split_nl_users_rows) (simp add: strip_def isspace_def)
  show ?thesis
    by (simp add: statements_of_def columns_of_users query_result_def example_db_insert
        statement_lines_def ne sl)
qed

subsection \<open>Joined lines and the frame of the dump\<close>

lemma join_append:
  "xs \<noteq> [] \<Longrightarrow> ys \<noteq> [] \<Longrightarrow> join sep (xs @ ys) = join sep xs @ sep @ join sep ys"
proof (induction sep xs rule: join.induct)
  case (1 sep)
  then show ?case by simp
next
  case (2 sep x)
  then show ?case by (cases ys) simp_all
next
  case (3 sep x y ys')
  then show ?case by simp
qed

lemma header_not_empty: "header \<noteq> []"
  by (simp add: header_def)

lemma footer_not_empty: "footer \<noteq> []"
  by (simp add: footer_def)

lemma dump_text_framed:
  "join sep (header @ body @ footer)
     = join sep header @ sep @ join sep (body @ footer)
   \<and> (\<exists>front. join sep (header @ body @ footer) = front @ sep @ join sep footer)"
proof -
  have a: "join sep (header @ body @ footer) = join sep header @ sep @ join sep (body @ footer)"
    using join_append [of header "body @ footer" sep] header_not_empty footer_not_empty by simp
  have b: "join sep ((header @ body) @ footer) = join sep (header @ body) @ sep @ join sep footer"
    using join_append [of "header @ body" footer sep] header_not_empty footer_not_empty by simp
  show ?thesis using a b by auto
qed

lemma not_included_sessions: "\<not> included db ''sessions''"
  by (simp add: included_def)

lemma no_lines_for_sessions: "table_lines upper db ''sessions'' = []"
  by (simp add: table_lines_def included_def)

lemma no_table_lines:
  "\<forall>t\<in>set ts. \<not> included db t \<Longrightarrow> concat (map (table_lines upper db) ts) = []"
  by (induction ts) (simp_all add: table_lines_def)

lemma sections_of_included:
  "\<forall>t\<in>set ts. t \<noteq> ''sessions'' \<longrightarrow> included db t \<Longrightarrow>
   concat (map (table_lines upper db) ts)
     = concat (map (section_of upper db) (filter (\<lambda>t. t \<noteq> ''sessions'') ts))"
  by (induction ts) (auto simp add: table_lines_def included_def)

lemma only_sessions_tables:
  "only_sessions_db tables_query = Completed '' sessions\<newline>\<newline>''"
  by (simp add: only_sessions_db_def)

lemma only_sessions_lines: "stripped_lines (strip '' sessions\<newline>\<newline>'') = [''sessions'']"
  by (simp add: stripped_lines_def strip_def isspace_def Let_def)

lemma footer_text:
  "join ''\<newline>'' footer
     = rule_line @ ''\<newline>-- Re-enable foreign key checks\<newline>'' @ rule_line
       @ ''\<newline>SET session_replication_role = DEFAULT;\<newline>\<newline>''
       @ ''-- Import complete! All production data has been restored.''"
  by (simp add: footer_def)

subsection \<open>What the callers can tell about an answer\<close>

text \<open>
  Every caller of \<^verbatim>\<open>run_sql_query\<close> tests the truth value of the result before it uses it,
  so what a run writes and which queries it runs depend on the database through \<open>usable\<close>
  only.
\<close>

lemma truthy_usable: "truthy (query_result db q) \<longleftrightarrow> usable db q \<noteq> None"
  by (cases "query_result db q") (simp_all add: usable_def)

lemma usable_value: "truthy (query_result db q) \<Longrightarrow> query_result db q = usable db q"
  by (simp add: usable_def)

lemma included_usable:
  "included db t \<longleftrightarrow> t \<noteq> ''sessions'' \<and> usable db (columns_query t) \<noteq> None"
  by (simp add: included_def truthy_usable)

lemma columns_of_usable:
  "included db t \<Longrightarrow> columns_of db t = stripped_lines (the (usable db (columns_query t)))"
  using usable_value [of db "columns_query t"] by (simp add: included_def columns_of_def)

lemma row_count_of_usable:
  "row_count_of db t
     = (case usable db (count_query t) of None \<Rightarrow> ''0'' | Some s \<Rightarrow> strip s)"
  by (cases "query_result db (count_query t)") (simp_all add: row_count_of_def usable_def)

lemma statement_lines_usable:
  "statement_lines (query_result db q)
     = (case usable db q of None \<Rightarrow> [] | Some s \<Rightarrow> stripped_lines s)"
  by (cases "query_result db q") (simp_all add: statement_lines_def usable_def)

lemma table_lines_usable:
  assumes "usable db = usable db'"
  shows "table_lines upper db t = table_lines upper db' t"
proof (cases "included db t")
  case True
  then have inc': "included db' t"
    using assms by (simp add: included_usable)
  have c: "columns_of db t = columns_of db' t"
    using True inc' assms by (simp add: columns_of_usable)
  have r: "row_count_of db t = row_count_of db' t"
    using assms by (simp add: row_count_of_usable)
  have s: "statements_of db t = statements_of db' t"
    using assms by (simp add: statements_of_def statement_lines_usable c)
  show ?thesis
    using True inc' by (simp add: table_lines_def section_of_def r s)
next
  case False
  then have "\<not> included db' t"
    using assms by (simp add: included_usable)
  with False show ?thesis
    by (simp add: table_lines_def)
qed

lemma table_queries_usable:
  assumes "usable db = usable db'"
  shows "table_queries db t = table_queries db' t"
proof (cases "included db t")
  case True
  then have inc': "included db' t"
    using assms by (simp add: included_usable)
  have c: "columns_of db t = columns_of db' t"
    using True inc' assms by (simp add: columns_of_usable)
  show ?thesis
    using True inc' by (simp add: table_queries_def included_def c)
next
  case False
  then have "\<not> included db' t"
    using assms by (simp add: included_usable)
  with False show ?thesis
    by (auto simp add: table_queries_def included_def)
qed

lemma main_usable:
  assumes "usable db = usable db'"
  shows "files (main upper db w) = files (main upper db' w)"
    and "executed (main upper db w) = executed (main upper db' w)"
proof -
  have t: "truthy (query_result db tables_query) \<longleftrightarrow> truthy (query_result db' tables_query)"
    using assms by (simp add: truthy_usable)
  show "files (main upper db w) = files (main upper db' w)"
  proof (cases "truthy (query_result db tables_query)")
    case True
    then have t': "truthy (query_result db' tables_query)"
      using t by simp
    have l: "stripped_lines (the (query_result db tables_query))
        = stripped_lines (the (query_result db' tables_query))"
      using usable_value [OF True] usable_value [OF t'] assms by simp
    have "dump_lines upper db = dump_lines upper db'"
      using table_lines_usable [OF assms] by (simp add: dump_lines_def l cong: map_cong)
    then show ?thesis
      using files_main_written [OF True, where w = w] files_main_written [OF t', where w = w] by simp
  next
    case False
    then have f': "\<not> truthy (query_result db' tables_query)"
      using t by simp
    show ?thesis
      using main_aborted(1) [OF False, where w = w] main_aborted(1) [OF f', where w = w] by simp
  qed
  show "executed (main upper db w) = executed (main upper db' w)"
  proof (cases "truthy (query_result db tables_query)")
    case True
    then have t': "truthy (query_result db' tables_query)"
      using t by simp
    have l: "stripped_lines (the (query_result db tables_query))
        = stripped_lines (the (query_result db' tables_query))"
      using usable_value [OF True] usable_value [OF t'] assms by simp
    have "table_queries db = table_queries db'"
      by (rule ext) (rule table_queries_usable [OF assms])
    then show ?thesis
      using executed_main_written [OF True, where w = w] executed_main_written [OF t', where w = w]
      by (simp add: l)
  next
    case False
    then have f': "\<not> truthy (query_result db' tables_query)"
      using t by simp
    show ?thesis
      using main_aborted(2) [OF False, where w = w] main_aborted(2) [OF f', where w = w] by simp
  qed
qed

lemma blank_usable:
  assumes "strip ws = []"
  shows "usable (db(q := Completed ws)) = usable (db(q := CalledProcessError e err))"
proof
  fix x
  show "usable (db(q := Completed ws)) x = usable (db(q := CalledProcessError e err)) x"
    using assms by (simp add: usable_def query_result_def)
qed

subsection \<open>C1: one section for every table but sessions\<close>

text \<open>
  C1, as amended. When the query for the table list returns text and the columns query of
  every listed table other than \<^verbatim>\<open>sessions\<close> returns text, the file written is the header,
  then one section (banner, statements, blank line) for every listed table other than
  \<^verbatim>\<open>sessions\<close>, in the order of the list, then the footer. So every table but \<^verbatim>\<open>sessions\<close>
  has a section and \<^verbatim>\<open>sessions\<close> has none; each table has exactly one when the list has no
  duplicates, and the sections are in ascending order of the table name when the list is,
  as the \<^verbatim>\<open>ORDER BY\<close> of the query asks.
\<close>

theorem sections_follow_catalog:
  assumes "db tables_query = Completed out" and "strip out \<noteq> []"
    and "tables = stripped_lines (strip out)"
    and "\<forall>t\<in>set tables. t \<noteq> ''sessions''
           \<longrightarrow> (\<exists>cols. db (columns_query t) = Completed cols \<and> strip cols \<noteq> [])"
    and "dumped = filter (\<lambda>t. t \<noteq> ''sessions'') tables"
  shows "files (main upper db w) output_file
           = Some (join ''\<newline>'' (header @ concat (map (section_of upper db) dumped) @ footer))
       \<and> set dumped = set tables - {''sessions''}
       \<and> (distinct tables \<longrightarrow> distinct dumped)
       \<and> (sorted tables \<longrightarrow> sorted dumped)"
proof -
  have t: "truthy (query_result db tables_query)"
    and l: "stripped_lines (the (query_result db tables_query)) = tables"
    using assms(1,2,3) by (simp_all add: query_result_def)
  have inc: "\<forall>t\<in>set tables. t \<noteq> ''sessions'' \<longrightarrow> included db t"
    using assms(4) by (auto simp add: included_def query_result_def)
  have c: "concat (map (table_lines upper db) tables) = concat (map (section_of upper db) dumped)"
    using sections_of_included [OF inc] assms(5) by simp
  have f: "files (main upper db w) output_file
           = Some (join ''\<newline>'' (header @ concat (map (section_of upper db) dumped) @ footer))"
    using files_main_written [OF t, where w = w] by (simp add: dump_lines_def l c)
  have s: "set dumped = set tables - {''sessions''}"
    using assms(5) by auto
  have d: "distinct tables \<longrightarrow> distinct dumped"
    using assms(5) by simp
  have o: "sorted tables \<longrightarrow> sorted dumped"
    using assms(5) by (simp add: sorted_wrt_filter)
  show ?thesis using f s d o by simp
qed

text \<open>The scenario of the specification: one section, for \<^verbatim>\<open>users\<close>.\<close>

theorem sections_follow_catalog_witness:
  "files (main ascii_upper example_db w0) output_file
     = Some (join ''\<newline>'' (header @ concat (map (section_of ascii_upper example_db) [''users'']) @ footer))
   \<and> sorted [''sessions'', ''users''] \<and> sorted [''users'']"
proof -
  have h2: "strip '' sessions\<newline> users\<newline>\<newline>'' \<noteq> []"
    by (simp add: strip_def isspace_def)
  have h3: "[''sessions'', ''users''] = stripped_lines (strip '' sessions\<newline> users\<newline>\<newline>'')"
    by (simp add: stripped_lines_eval_2)
  have h4: "\<forall>t\<in>set [''sessions'', ''users'']. t \<noteq> ''sessions''
           \<longrightarrow> (\<exists>cols. example_db (columns_query t) = Completed cols \<and> strip cols \<noteq> [])"
    by (simp add: example_db_columns strip_def isspace_def)
  have h5: "[''users''] = filter (\<lambda>t. t \<noteq> ''sessions'') [''sessions'', ''users'']"
    by simp
  have s: "sorted [''sessions'', ''users'']"
    by simp
  show ?thesis
    using sections_follow_catalog [where upper = ascii_upper and db = example_db and w = w0,
        OF example_db_tables h2 h3 h4 h5] s
    by blast
qed

text \<open>
  C1 as stated also has the name \<^verbatim>\<open>sessions\<close> occur in no banner and no statement of the
  output. The statements are text of the database and are copied whatever they say: in the
  scenario the second user is called ``sessions'', and the statement for that row is in the
  file.
\<close>

theorem excluded_name_in_output_counterexample:
  "files (main ascii_upper example_db w0) output_file
     = Some (join ''\<newline>''
         (header
          @ [rule_line, ''-- USERS (2 records)'', rule_line,
             ''INSERT INTO users VALUES ('1','ann','2025-01-01');'',
             ''INSERT INTO users VALUES ('2','sessions','2025-01-02');'', []]
          @ footer))
   \<and> occurs_in ''sessions'' ''INSERT INTO users VALUES ('2','sessions','2025-01-02');''"
proof -
  have t: "truthy (query_result example_db tables_query)"
    by (simp add: query_result_def example_db_tables strip_def isspace_def)
  have l: "stripped_lines (the (query_result example_db tables_query)) = [''sessions'', ''users'']"
    using stripped_lines_eval_2 by (simp add: query_result_def example_db_tables)
  have u: "table_lines ascii_upper example_db ''users''
     = [rule_line, ''-- USERS (2 records)'', rule_line,
        ''INSERT INTO users VALUES ('1','ann','2025-01-01');'',
        ''INSERT INTO users VALUES ('2','sessions','2025-01-02');'', []]"
    by (simp add: table_lines_def included_users section_of_def statements_of_users
        row_count_of_users banner_line_def upper_users)
  have f: "files (main ascii_upper example_db w0) output_file
     = Some (join ''\<newline>''
         (header
          @ [rule_line, ''-- USERS (2 records)'', rule_line,
             ''INSERT INTO users VALUES ('1','ann','2025-01-01');'',
             ''INSERT INTO users VALUES ('2','sessions','2025-01-02');'', []]
          @ footer))"
    using files_main_written [OF t, where w = w0 and upper = ascii_upper]
    by (simp add: dump_lines_def l u no_lines_for_sessions)
  have o: "occurs_in ''sessions'' ''INSERT INTO users VALUES ('2','sessions','2025-01-02');''"
    by simp
  show ?thesis using f o by simp
qed

subsection \<open>C2: header and footer\<close>

text \<open>
  C2, as amended. When the query for the table list returns text, the file is written, its
  text begins with the header lines and ends with the footer lines, and when no listed
  table is included (each is \<^verbatim>\<open>sessions\<close> or has no columns answer) the header is directly
  followed by the footer.
\<close>

theorem header_and_footer_frame:
  assumes "db tables_query = Completed out" and "strip out \<noteq> []"
    and "body = concat (map (table_lines upper db) (stripped_lines (strip out)))"
  shows "files (main upper db w) output_file = Some (join ''\<newline>'' (header @ body @ footer))
       \<and> prefix (join ''\<newline>'' header @ ''\<newline>'') (join ''\<newline>'' (header @ body @ footer))
       \<and> suffix (''\<newline>'' @ join ''\<newline>'' footer) (join ''\<newline>'' (header @ body @ footer))
       \<and> ((\<forall>t\<in>set (stripped_lines (strip out)). \<not> included db t)
            \<longrightarrow> files (main upper db w) output_file
                  = Some (join ''\<newline>'' header @ ''\<newline>'' @ join ''\<newline>'' footer))"
proof -
  have t: "truthy (query_result db tables_query)"
    and l: "stripped_lines (the (query_result db tables_query)) = stripped_lines (strip out)"
    using assms(1,2) by (simp_all add: query_result_def)
  have f: "files (main upper db w) output_file = Some (join ''\<newline>'' (header @ body @ footer))"
    using files_main_written [OF t, where w = w] by (simp add: dump_lines_def l assms(3))
  have p: "prefix (join ''\<newline>'' header @ ''\<newline>'') (join ''\<newline>'' (header @ body @ footer))"
    using dump_text_framed [of "''\<newline>''" body] by (metis append.assoc prefixI)
  have s: "suffix (''\<newline>'' @ join ''\<newline>'' footer) (join ''\<newline>'' (header @ body @ footer))"
    using dump_text_framed [of "''\<newline>''" body] by (metis suffixI)
  have e: "(\<forall>t\<in>set (stripped_lines (strip out)). \<not> included db t)
            \<longrightarrow> files (main upper db w) output_file
                  = Some (join ''\<newline>'' header @ ''\<newline>'' @ join ''\<newline>'' footer)"
  proof
    assume "\<forall>t\<in>set (stripped_lines (strip out)). \<not> included db t"
    then have "body = []"
      using no_table_lines [of "stripped_lines (strip out)" db] assms(3) by simp
    then show "files (main upper db w) output_file
                  = Some (join ''\<newline>'' header @ ''\<newline>'' @ join ''\<newline>'' footer)"
      using f dump_text_framed [of "''\<newline>''" "[]"] by simp
  qed
  show ?thesis using f p s e by simp
qed

text \<open>A schema whose only base table is \<^verbatim>\<open>sessions\<close>: header, then footer.\<close>

theorem header_and_footer_frame_witness:
  "files (main ascii_upper only_sessions_db w0) output_file
     = Some (join ''\<newline>'' header @ ''\<newline>'' @ join ''\<newline>'' footer)"
proof -
  have h2: "strip '' sessions\<newline>\<newline>'' \<noteq> []"
    by (simp add: strip_def isspace_def)
  have h3: "[] = concat (map (table_lines ascii_upper only_sessions_db)
      (stripped_lines (strip '' sessions\<newline>\<newline>'')))"
    by (simp add: only_sessions_lines table_lines_def not_included_sessions)
  have h4: "\<forall>t\<in>set (stripped_lines (strip '' sessions\<newline>\<newline>'')). \<not> included only_sessions_db t"
    by (simp add: only_sessions_lines not_included_sessions)
  show ?thesis
    using header_and_footer_frame [where upper = ascii_upper and db = only_sessions_db and w = w0,
        OF only_sessions_tables h2 h3] h4
    by blast
qed

text \<open>
  C2 as stated has the file written in every run, also with an empty table list. A schema
  without base tables answers the table list query with an empty line; its stripped text is
  empty, which \<^verbatim>\<open>main\<close> takes for a failure: it returns and no file is written.
\<close>

theorem empty_table_list_counterexample:
  "empty_schema_db tables_query = Completed ''\<newline>''
   \<and> files w0 output_file = None
   \<and> files (main ascii_upper empty_schema_db w0) output_file = None
   \<and> executed (main ascii_upper empty_schema_db w0) = [tables_query]"
proof -
  have a: "empty_schema_db tables_query = Completed ''\<newline>''"
    by (simp add: empty_schema_db_def)
  have n: "\<not> truthy (query_result empty_schema_db tables_query)"
    by (simp add: query_result_def a strip_def isspace_def)
  show ?thesis
    using a main_aborted [OF n, where w = w0 and upper = ascii_upper] by (simp add: w0_def)
qed

subsection \<open>C3: a failed table listing\<close>

text \<open>
  C3. When the query for the table list fails, the run reports the error and returns: the
  files are as they were (the dump file is neither created nor overwritten), the table
  list query is the only query run, and three lines are printed, the two of
  \<^verbatim>\<open>run_sql_query\<close> and ``Failed to get table list''.
\<close>

theorem catalog_failure_writes_nothing:
  assumes "db tables_query = CalledProcessError e err"
  shows "files (main upper db w) = files w
       \<and> executed (main upper db w) = executed w @ [tables_query]
       \<and> printed (main upper db w)
           = printed w @ [''Error running query: '' @ e, ''stderr: '' @ err,
                          ''Failed to get table list'']"
  using assms by (simp add: main_def run_sql_query_def print_def Let_def)

text \<open>With a server that cannot be reached and an empty directory: still no file.\<close>

theorem catalog_failure_writes_nothing_witness:
  "no_database tables_query
     = CalledProcessError ''Command returned non-zero exit status 2.'' ''connection refused''
   \<and> files (main ascii_upper no_database w0) = Map.empty
   \<and> executed (main ascii_upper no_database w0) = [tables_query]
   \<and> printed (main ascii_upper no_database w0)
       = [''Error running query: Command returned non-zero exit status 2.'',
          ''stderr: connection refused'', ''Failed to get table list'']"
proof -
  have h: "no_database tables_query
     = CalledProcessError ''Command returned non-zero exit status 2.'' ''connection refused''"
    by (simp add: no_database_def)
  show ?thesis
    using h catalog_failure_writes_nothing [where upper = ascii_upper and db = no_database and w = w0, OF h] by (simp add: w0_def)
qed

subsection \<open>C4: null values\<close>

lemma render_column_ast: "render (column_ast col) = column_expr col"
  by (simp add: column_ast_def column_expr_def)

text \<open>
  For a column that is not quoted directly a null value gives the unquoted keyword
  \<^verbatim>\<open>NULL\<close>, whatever the quoting function does.
\<close>

lemma coalesced_null_is_keyword:
  assumes "\<not> direct_quoted col" and "r col = None"
  shows "literal_of quote r col = Some ''NULL''
       \<and> column_expr col = ''COALESCE(quote_literal('' @ col @ ''::text), 'NULL')''"
  using assms by (simp add: literal_of_def column_ast_def column_expr_def)

text \<open>
  The query that \<^verbatim>\<open>generate_insert_statements\<close> builds is the chain of the operands, as
  text.
\<close>

lemma join_Cons: "xs \<noteq> [] \<Longrightarrow> join sep (x # xs) = x @ sep @ join sep xs"
  by (cases xs) simp_all

lemma intersperse_not_empty: "intersperse s (x # xs) \<noteq> []"
  by (cases xs) simp_all

lemma join_intersperse:
  "join '' || ',' || '' (map column_expr columns)
     = join '' || '' (map render (intersperse (Text_constant '','') (map column_ast columns)))"
proof (induction columns rule: induct_list012)
  case 1
  then show ?case by simp
next
  case (2 x)
  then show ?case by (simp add: render_column_ast)
next
  case (3 x y zs)
  have ne: "map render (intersperse (Text_constant '','') (column_ast y # map column_ast zs)) \<noteq> []"
    by (simp add: intersperse_not_empty)
  show ?case
    using 3(2) by (simp add: render_column_ast join_Cons [OF ne])
qed

lemma insert_query_operands:
  "operands table_name columns
     = Text_constant (''INSERT INTO '' @ table_name @ '' VALUES ('')
       # intersperse (Text_constant '','') (map column_ast columns)
       @ [Text_constant '');'']
   \<and> insert_query table_name columns
     = ''\<newline>    SELECT ''
       @ render (Text_constant (''INSERT INTO '' @ table_name @ '' VALUES (''))
       @ '' ||\<newline>           ''
       @ join '' || ''
           (map render (intersperse (Text_constant '','') (map column_ast columns)))
       @ '' ||\<newline>           ''
       @ render (Text_constant '');'')
       @ '' as insert_statement\<newline>    FROM '' @ table_name @ '';\<newline>    ''"
  by (simp add: operands_def insert_query_def join_intersperse)

lemma row_statement_example:
  "row_statement example_quote ''one'' [''id'', ''name'', ''updated_at''] example_row = None"
  by (simp add: row_statement_def operands_def column_ast_def direct_quoted_def endswith_def
      suffix_to_prefix example_row_def example_quote_def)

lemma row_statement_example_2:
  "row_statement example_quote ''one'' [''id'', ''name'', ''updated_at'']
      (example_row(''updated_at'' \<mapsto> ''2025-01-01''))
     = Some ''INSERT INTO one VALUES ('7',NULL,'2025-01-01');''"
  by (simp add: row_statement_def operands_def column_ast_def direct_quoted_def endswith_def
      suffix_to_prefix example_row_def example_quote_def)

lemma one_db_tables: "one_db tables_query = Completed '' one\<newline>\<newline>''"
  by (simp add: one_db_def tables_query_def columns_query_def count_query_def insert_query_def)

lemma one_db_columns:
  "one_db (columns_query ''one'') = Completed '' id\<newline> name\<newline> updated_at\<newline>\<newline>''"
  by (simp add: one_db_def columns_query_def count_query_def insert_query_def)

lemma one_db_count: "one_db (count_query ''one'') = Completed ''     1\<newline>\<newline>''"
  by (simp add: one_db_def count_query_def insert_query_def)

lemma one_db_insert:
  "one_db (insert_query ''one'' [''id'', ''name'', ''updated_at'']) = Completed '' \<newline>\<newline>''"
  by (simp add: one_db_def row_statement_example psql_rows_def)

lemma strip_one: "strip '' one\<newline>\<newline>'' = ''one''"
  by (simp add: strip_def isspace_def)

lemma stripped_lines_one: "stripped_lines ''one'' = [''one'']"
  by (simp add: stripped_lines_def strip_def isspace_def Let_def)

lemma columns_of_one: "columns_of one_db ''one'' = [''id'', ''name'', ''updated_at'']"
  by (simp add: columns_of_def query_result_def one_db_columns stripped_lines_def strip_def
      isspace_def Let_def)

lemma included_one: "included one_db ''one''"
  by (simp add: included_def query_result_def one_db_columns strip_def isspace_def)

lemma row_count_of_one: "row_count_of one_db ''one'' = ''1''"
  by (simp add: row_count_of_def query_result_def one_db_count strip_def isspace_def)

lemma statements_of_one: "statements_of one_db ''one'' = []"
  by (simp add: statements_of_def columns_of_one query_result_def one_db_insert
      statement_lines_def strip_def isspace_def)

lemma upper_one: "ascii_upper ''one'' = ''ONE''"
  by code_simp

text \<open>
  C4. The specification has a null value of a column appear as the keyword \<^verbatim>\<open>NULL\<close> in the
  \<^verbatim>\<open>INSERT\<close> statement of its row. The script gives the columns \<^verbatim>\<open>id\<close>, \<^verbatim>\<open>created_at\<close> and
  \<^verbatim>\<open>updated_at\<close> the expression \<^verbatim>\<open>quote_literal(col)\<close> with no fallback, beside the
  \<^verbatim>\<open>COALESCE\<close> that every other column gets. In the run on the table \<^verbatim>\<open>one\<close>, whose single
  row has the id 7 and a null \<^verbatim>\<open>name\<close> and \<^verbatim>\<open>updated_at\<close>: the expression of \<^verbatim>\<open>updated_at\<close>
  has no value, so the statement of the row has none, \<^verbatim>\<open>psql\<close> prints an empty line for
  it, and the file written has the banner of the table, announcing one record, and no
  \<^verbatim>\<open>INSERT\<close> line. The same row with a date in \<^verbatim>\<open>updated_at\<close> has its statement, with the
  keyword for the null \<^verbatim>\<open>name\<close>.
\<close>

theorem null_updated_at_loses_the_row:
  "one_db tables_query = Completed '' one\<newline>\<newline>''
   \<and> one_db (columns_query ''one'') = Completed '' id\<newline> name\<newline> updated_at\<newline>\<newline>''
   \<and> one_db (count_query ''one'') = Completed ''     1\<newline>\<newline>''
   \<and> example_row ''updated_at'' = None
   \<and> column_expr ''updated_at'' = ''quote_literal(updated_at)''
   \<and> literal_of example_quote example_row ''updated_at'' = None
   \<and> row_statement example_quote ''one'' [''id'', ''name'', ''updated_at''] example_row = None
   \<and> one_db (insert_query ''one'' [''id'', ''name'', ''updated_at'']) = Completed '' \<newline>\<newline>''
   \<and> files (main ascii_upper one_db w0) output_file
       = Some (join ''\<newline>''
           (header @ [rule_line, ''-- ONE (1 records)'', rule_line, []] @ footer))
   \<and> row_statement example_quote ''one'' [''id'', ''name'', ''updated_at'']
        (example_row(''updated_at'' \<mapsto> ''2025-01-01''))
       = Some ''INSERT INTO one VALUES ('7',NULL,'2025-01-01');''"
proof -
  have ne: "strip '' one\<newline>\<newline>'' \<noteq> []" by (simp add: strip_one)
  have f: "files (main ascii_upper one_db w0) output_file
       = Some (join ''\<newline>''
           (header @ [rule_line, ''-- ONE (1 records)'', rule_line, []] @ footer))"
    using file_of_run [where db = one_db and out = "'' one\<newline>\<newline>''" and upper = ascii_upper
        and w = w0, OF one_db_tables ne]
    by (simp add: strip_one stripped_lines_one table_lines_def included_one section_of_def
        banner_line_def upper_one row_count_of_one statements_of_one)
  have l: "literal_of example_quote example_row ''updated_at'' = None"
    by (simp add: example_row_def literal_of_def column_ast_def direct_quoted_def)
  have c: "column_expr ''updated_at'' = ''quote_literal(updated_at)''"
    by (simp add: column_expr_def direct_quoted_def)
  have r: "example_row ''updated_at'' = None"
    by (simp add: example_row_def)
  show ?thesis
    using one_db_tables one_db_columns one_db_count r c l row_statement_example one_db_insert f
      row_statement_example_2
    by blast
qed

subsection \<open>C5: the expression chosen for a column\<close>

text \<open>
  C5. The query that \<^verbatim>\<open>generate_insert_statements\<close> runs, and whose answer it returns, has
  one expression for each column of the list it is passed, in order and separated by
  \<^verbatim>\<open> || ',' || \<close>: \<^verbatim>\<open>quote_literal(col)\<close>, with no cast and no \<^verbatim>\<open>COALESCE\<close>, for a column named
  \<^verbatim>\<open>id\<close>, \<^verbatim>\<open>created_at\<close> or \<^verbatim>\<open>updated_at\<close> or whose name ends with \<^verbatim>\<open>::text\<close>, and
  \<^verbatim>\<open>COALESCE(quote_literal(col::text), 'NULL')\<close> for every other column; the two forms are
  never the same text.
\<close>

theorem column_formatting:
  assumes "query =
      ''\<newline>    SELECT 'INSERT INTO '' @ table_name @ '' VALUES (' ||\<newline>           ''
      @ join '' || ',' || ''
          (map (\<lambda>col. if col = ''id'' \<or> col = ''created_at'' \<or> col = ''updated_at''
                          \<or> suffix ''::text'' col
                       then ''quote_literal('' @ col @ '')''
                       else ''COALESCE(quote_literal('' @ col @ ''::text), 'NULL')'')
             columns)
      @ '' ||\<newline>           ');' as insert_statement\<newline>    FROM '' @ table_name
      @ '';\<newline>    ''"
  shows "executed (snd (generate_insert_statements db table_name columns w))
           = executed w @ [query]
       \<and> fst (generate_insert_statements db table_name columns w) = query_result db query
       \<and> (\<forall>col. ''quote_literal('' @ col @ '')''
                  \<noteq> ''COALESCE(quote_literal('' @ col @ ''::text), 'NULL')'')"
proof -
  have ce: "column_expr = (\<lambda>col. if col = ''id'' \<or> col = ''created_at'' \<or> col = ''updated_at''
                          \<or> suffix ''::text'' col
                       then ''quote_literal('' @ col @ '')''
                       else ''COALESCE(quote_literal('' @ col @ ''::text), 'NULL')'')"
    by (rule ext) (simp add: column_expr_def direct_quoted_def endswith_def)
  have q: "query = insert_query table_name columns"
    unfolding assms insert_query_def ce by (rule refl)
  show ?thesis
    by (simp add: q generate_insert_statements_def executed_run_sql_query fst_run_sql_query
        print_def)
qed

theorem column_formatting_witness:
  "executed (snd (generate_insert_statements example_db ''users''
                    [''id'', ''name'', ''created_at'', ''note::text''] w0))
     = [''\<newline>    SELECT 'INSERT INTO users VALUES (' ||\<newline>           ''
        @ ''quote_literal(id) || ',' || COALESCE(quote_literal(name::text), 'NULL') || ',' || ''
        @ ''quote_literal(created_at) || ',' || quote_literal(note::text)''
        @ '' ||\<newline>           ');' as insert_statement\<newline>    FROM users;\<newline>    '']"
  using column_formatting [where table_name = "''users''"
      and columns = "[''id'', ''name'', ''created_at'', ''note::text'']"
      and db = example_db and w = w0, OF refl]
  by (simp add: suffix_to_prefix w0_def)

subsection \<open>C6: the footer\<close>

text \<open>
  C6, as amended. The file of every run that writes it ends with these six lines: a rule
  line, the comment about re-enabling the foreign key checks, a second rule line, the
  statement \<^verbatim>\<open>SET session_replication_role = DEFAULT;\<close>, a blank line, and the completion
  comment.
\<close>

theorem footer_of_written_file:
  assumes "db tables_query = Completed out" and "strip out \<noteq> []"
    and "body = header @ concat (map (table_lines upper db) (stripped_lines (strip out)))"
  shows "files (main upper db w) output_file
           = Some (join ''\<newline>''
               (body @ [rule_line,
                        ''-- Re-enable foreign key checks'',
                        rule_line,
                        ''SET session_replication_role = DEFAULT;'',
                        [],
                        ''-- Import complete! All production data has been restored.'']))
       \<and> suffix (''\<newline>'' @ rule_line @ ''\<newline>-- Re-enable foreign key checks\<newline>'' @ rule_line
                 @ ''\<newline>SET session_replication_role = DEFAULT;\<newline>\<newline>''
                 @ ''-- Import complete! All production data has been restored.'')
            (the (files (main upper db w) output_file))"
proof -
  have t: "truthy (query_result db tables_query)"
    and l: "stripped_lines (the (query_result db tables_query)) = stripped_lines (strip out)"
    using assms(1,2) by (simp_all add: query_result_def)
  have f: "files (main upper db w) output_file = Some (join ''\<newline>'' (body @ footer))"
    using files_main_written [OF t, where w = w] by (simp add: dump_lines_def l assms(3))
  have b: "body \<noteq> []"
    using header_not_empty assms(3) by simp
  have j: "join ''\<newline>'' (body @ footer) = join ''\<newline>'' body @ ''\<newline>'' @ join ''\<newline>'' footer"
    using join_append [OF b footer_not_empty] by simp
  have s: "suffix (''\<newline>'' @ join ''\<newline>'' footer) (the (files (main upper db w) output_file))"
    using f j by (simp add: suffix_def)
  show ?thesis
    using f s by (simp add: footer_text) (simp add: footer_def)
qed

theorem footer_of_written_file_witness:
  "files (main ascii_upper only_sessions_db w0) output_file
     = Some (join ''\<newline>''
         (header @ [rule_line,
                    ''-- Re-enable foreign key checks'',
                    rule_line,
                    ''SET session_replication_role = DEFAULT;'',
                    [],
                    ''-- Import complete! All production data has been restored.'']))"
proof -
  have h2: "strip '' sessions\<newline>\<newline>'' \<noteq> []"
    by (simp add: strip_def isspace_def)
  have h3: "header = header @ concat (map (table_lines ascii_upper only_sessions_db)
      (stripped_lines (strip '' sessions\<newline>\<newline>'')))"
    by (simp add: only_sessions_lines table_lines_def not_included_sessions)
  show ?thesis
    using footer_of_written_file [where upper = ascii_upper and db = only_sessions_db and w = w0,
        OF only_sessions_tables h2 h3]
    by blast
qed

text \<open>
  C6 as stated has five lines, with nothing between the comment and the \<^verbatim>\<open>SET\<close> statement.
  The file has the second rule line there, so it does not end with the five lines.
\<close>

theorem five_line_footer_counterexample:
  "files (main ascii_upper only_sessions_db w0) output_file = Some (join ''\<newline>'' (header @ footer))
   \<and> \<not> suffix (join ''\<newline>'' footer_as_specified) (join ''\<newline>'' (header @ footer))
   \<and> \<not> suffix footer_as_specified (header @ footer)"
proof -
  have t: "truthy (query_result only_sessions_db tables_query)"
    by (simp add: query_result_def only_sessions_tables strip_def isspace_def)
  have l: "stripped_lines (the (query_result only_sessions_db tables_query)) = [''sessions'']"
    using only_sessions_lines by (simp add: query_result_def only_sessions_tables)
  have f: "files (main ascii_upper only_sessions_db w0) output_file = Some (join ''\<newline>'' (header @ footer))"
    using files_main_written [OF t, where w = w0 and upper = ascii_upper]
    by (simp add: dump_lines_def l table_lines_def not_included_sessions)
  have a: "\<not> suffix footer_as_specified (header @ footer)"
    by (simp add: suffix_to_prefix header_def footer_def footer_as_specified_def rule_line_def)
  have b: "\<not> suffix (join ''\<newline>'' footer_as_specified) (join ''\<newline>'' (header @ footer))"
    by (simp add: suffix_to_prefix header_def footer_def footer_as_specified_def rule_line_def)
  show ?thesis using f a b by simp
qed

subsection \<open>C7: the statement lines\<close>

text \<open>
  C7, as amended. For a table other than \<^verbatim>\<open>sessions\<close> whose columns query returned text and
  whose statement query returned text, the pass of the loop appends, after the banner,
  every non-blank line of that text with the whitespace at its two ends removed, in order,
  and then one blank line; blank lines of the text are not appended.
\<close>

theorem statements_are_stripped_lines:
  assumes "table \<noteq> ''sessions''"
    and "db (columns_query table) = Completed cols" and "strip cols \<noteq> []"
    and "db (insert_query table (stripped_lines (strip cols))) = Completed out"
    and "strip out \<noteq> []"
  shows "fst (loop_body upper db table (dump_content, w))
       = dump_content @ [rule_line, banner_line upper table (row_count_of db table), rule_line]
         @ map strip (filter (\<lambda>x. strip x \<noteq> []) (split_nl (strip out))) @ [[]]"
  using assms
  by (simp add: fst_loop_body table_lines_def included_def section_of_def statements_of_def
      columns_of_def query_result_def statement_lines_def stripped_lines_def)

text \<open>The table \<^verbatim>\<open>users\<close> of the example.\<close>

theorem statements_are_stripped_lines_witness:
  "fst (loop_body ascii_upper example_db ''users'' ([], w0))
     = [rule_line, ''-- USERS (2 records)'', rule_line,
        ''INSERT INTO users VALUES ('1','ann','2025-01-01');'',
        ''INSERT INTO users VALUES ('2','sessions','2025-01-02');'', []]"
proof -
  have h1: "''users'' \<noteq> ''sessions''" by simp
  have h3: "strip '' id\<newline> name\<newline> created_at\<newline>\<newline>'' \<noteq> []"
    by (simp add: strip_def isspace_def)
  have cols: "stripped_lines (strip '' id\<newline> name\<newline> created_at\<newline>\<newline>'')
      = [''id'', ''name'', ''created_at'']"
    by (simp add: stripped_lines_def strip_def isspace_def Let_def)
  have h4: "example_db (insert_query ''users''
      (stripped_lines (strip '' id\<newline> name\<newline> created_at\<newline>\<newline>''))) = Completed users_rows"
    by (simp add: cols example_db_insert)
  have h5: "strip users_rows \<noteq> []" by (simp add: strip_users_rows)
  have lines: "map strip (filter (\<lambda>x. strip x \<noteq> []) (split_nl (strip users_rows)))
      = [''INSERT INTO users VALUES ('1','ann','2025-01-01');'',
         ''INSERT INTO users VALUES ('2','sessions','2025-01-02');'']"
    by (simp add: split_nl_users_rows) (simp add: strip_def isspace_def)
  show ?thesis
    using statements_are_stripped_lines [where upper = ascii_upper and db = example_db and table = "''users''"
        and dump_content = "[]" and w = w0, OF h1 example_db_columns h3 h4 h5]
    by (simp add: lines row_count_of_users banner_line_def upper_users)
qed

text \<open>
  C7 as stated has the lines appended unchanged. The text returned for \<^verbatim>\<open>users\<close> has a
  second line that starts with a space, as every row after the first does in the output
  of \<^verbatim>\<open>psql -t\<close>; the dump has that line without the space, so the pass of the loop is not
  the banner followed by the non-blank lines as they are.
\<close>

theorem verbatim_lines_counterexample:
  "query_result example_db (insert_query ''users'' (columns_of example_db ''users''))
     = Some (''INSERT INTO users VALUES ('1','ann','2025-01-01');\<newline>''
             @ '' INSERT INTO users VALUES ('2','sessions','2025-01-02');'')
   \<and> verbatim_lines (strip users_rows) ! 1
       = '' INSERT INTO users VALUES ('2','sessions','2025-01-02');''
   \<and> fst (loop_body ascii_upper example_db ''users'' ([], w0)) ! 4
       = ''INSERT INTO users VALUES ('2','sessions','2025-01-02');''
   \<and> fst (loop_body ascii_upper example_db ''users'' ([], w0))
       \<noteq> [rule_line, ''-- USERS (2 records)'', rule_line]
          @ verbatim_lines (strip users_rows) @ [[]]"
proof -
  have v: "verbatim_lines (strip users_rows)
      = [''INSERT INTO users VALUES ('1','ann','2025-01-01');'',
         '' INSERT INTO users VALUES ('2','sessions','2025-01-02');'']"
    by (simp add: verbatim_lines_def split_nl_users_rows) (simp add: strip_def isspace_def)
  have l: "fst (loop_body ascii_upper example_db ''users'' ([], w0))
     = [rule_line, ''-- USERS (2 records)'', rule_line,
        ''INSERT INTO users VALUES ('1','ann','2025-01-01');'',
        ''INSERT INTO users VALUES ('2','sessions','2025-01-02');'', []]"
    by (simp add: fst_loop_body table_lines_def included_users section_of_def
        statements_of_users row_count_of_users banner_line_def upper_users)
  have q: "query_result example_db (insert_query ''users'' (columns_of example_db ''users''))
     = Some (''INSERT INTO users VALUES ('1','ann','2025-01-01');\<newline>''
             @ '' INSERT INTO users VALUES ('2','sessions','2025-01-02');'')"
    by (simp add: columns_of_users query_result_def example_db_insert strip_users_rows)
  show ?thesis
    by (simp add: v l q)
qed

subsection \<open>C8: a table without rows\<close>

text \<open>
  C8. In a run that writes the file, a listed table other than \<^verbatim>\<open>sessions\<close> whose columns
  query returned text and whose statement query returned no line or failed (the table has
  no rows) has this section in the file, between the lines of the tables listed before
  it and those of the tables listed after it: the three banner lines and then a blank
  line, with nothing in between.
\<close>

theorem empty_table_section:
  assumes "db tables_query = Completed out" and "strip out \<noteq> []"
    and "stripped_lines (strip out) = before @ [table] @ after"
    and "table \<noteq> ''sessions''"
    and "db (columns_query table) = Completed cols" and "strip cols \<noteq> []"
    and "\<not> truthy (query_result db (insert_query table (stripped_lines (strip cols))))"
  shows "files (main upper db w) output_file
       = Some (join ''\<newline>''
           (header
            @ concat (map (table_lines upper db) before)
            @ [rule_line,
               ''-- '' @ upper table @ '' ('' @ row_count_of db table @ '' records)'',
               rule_line,
               []]
            @ concat (map (table_lines upper db) after)
            @ footer))"
proof -
  have tl: "table_lines upper db table
          = [rule_line,
             ''-- '' @ upper table @ '' ('' @ row_count_of db table @ '' records)'',
             rule_line, []]"
    using assms(4-7)
    by (simp add: table_lines_def included_def section_of_def statements_of_def
        columns_of_def query_result_def statement_lines_def banner_line_def)
  show ?thesis
    using file_of_run [where db = db and out = out and upper = upper and w = w, OF assms(1,2)]
    by (simp add: assms(3) tl)
qed

text \<open>The table \<^verbatim>\<open>logs\<close> of the example has no rows.\<close>

theorem empty_table_section_witness:
  "files (main ascii_upper logs_db w0) output_file
     = Some (join ''\<newline>'' (header @ [rule_line, ''-- LOGS (0 records)'', rule_line, []] @ footer))"
proof -
  have h2: "strip '' logs\<newline>\<newline>'' \<noteq> []" by (simp add: strip_logs)
  have h3: "stripped_lines (strip '' logs\<newline>\<newline>'') = [] @ [''logs''] @ []"
    by (simp add: strip_logs stripped_lines_logs)
  have h4: "''logs'' \<noteq> ''sessions''" by simp
  have h6: "strip '' id\<newline>\<newline>'' \<noteq> []" by (simp add: strip_eval_1)
  have h7: "\<not> truthy (query_result logs_db
               (insert_query ''logs'' (stripped_lines (strip '' id\<newline>\<newline>''))))"
    by (simp add: strip_eval_1 stripped_lines_eval_1 logs_db_insert query_result_def
        strip_def isspace_def)
  show ?thesis
    using empty_table_section [where upper = ascii_upper and db = logs_db and w = w0
        and table = "''logs''" and before = "[]" and after = "[]",
        OF logs_db_tables h2 h3 h4 logs_db_columns h6 h7]
    by (simp add: row_count_of_logs upper_logs)
qed

subsection \<open>C9: the row count\<close>

text \<open>
  C9. In a run that writes the file, the banner line of every included table is \<^verbatim>\<open>-- \<close>,
  the table name in upper case, a space and \<^verbatim>\<open>(<count> records)\<close>, where the count is the
  stripped answer to the count query, or \<^verbatim>\<open>0\<close> when the count query fails. The answers to
  the count queries decide nothing else: a database that differs in them only makes the
  run execute the same queries and write the same file but for the counts in the banner
  lines; which tables have a section and which statement lines follow are the same.
\<close>

theorem row_count_only_in_banner:
  assumes "db tables_query = Completed out" and "strip out \<noteq> []"
    and "\<forall>q. (\<forall>t. q \<noteq> count_query t) \<longrightarrow> db' q = db q"
  shows "files (main upper db w) output_file
       = Some (join ''\<newline>''
           (header
            @ concat (map (\<lambda>t. if included db t
                               then [rule_line,
                                     ''-- '' @ upper t @ '' ('' @ row_count_of db t @ '' records)'',
                                     rule_line]
                                    @ statements_of db t @ [[]]
                               else [])
                        (stripped_lines (strip out)))
            @ footer))
     \<and> files (main upper db' w) output_file
       = Some (join ''\<newline>''
           (header
            @ concat (map (\<lambda>t. if included db t
                               then [rule_line,
                                     ''-- '' @ upper t @ '' ('' @ row_count_of db' t @ '' records)'',
                                     rule_line]
                                    @ statements_of db t @ [[]]
                               else [])
                        (stripped_lines (strip out)))
            @ footer))
     \<and> executed (main upper db' w) = executed (main upper db w)
     \<and> (\<forall>t e err. db (count_query t) = CalledProcessError e err
            \<longrightarrow> row_count_of db t = ''0'')
     \<and> (\<forall>t c. db' (count_query t) = Completed c \<and> strip c \<noteq> []
            \<longrightarrow> row_count_of db' t = strip (strip c))"
proof -
  have q: "\<And>q. (\<And>t. q \<noteq> count_query t) \<Longrightarrow> query_result db' q = query_result db q"
    using assms(3) by (simp add: query_result_def)
  have tq: "query_result db' tables_query = query_result db tables_query"
    using q [of tables_query] tables_query_neq_count_query by simp
  have cols: "\<And>t. query_result db' (columns_query t) = query_result db (columns_query t)"
    using q count_query_neq_columns_query by (metis)
  have inc: "\<And>t. included db' t = included db t"
    by (simp add: included_def cols)
  have cof: "\<And>t. columns_of db' t = columns_of db t"
    by (simp add: columns_of_def cols)
  have ins: "\<And>t cs. query_result db' (insert_query t cs) = query_result db (insert_query t cs)"
    using q count_query_neq_insert_query by (metis)
  have stm: "\<And>t. statements_of db' t = statements_of db t"
    by (simp add: statements_of_def cof ins)
  have tl: "table_lines upper db
          = (\<lambda>t. if included db t
                 then [rule_line,
                       ''-- '' @ upper t @ '' ('' @ row_count_of db t @ '' records)'',
                       rule_line]
                      @ statements_of db t @ [[]]
                 else [])"
    by (rule ext) (simp add: table_lines_def section_of_def banner_line_def)
  have tl': "table_lines upper db'
          = (\<lambda>t. if included db t
                 then [rule_line,
                       ''-- '' @ upper t @ '' ('' @ row_count_of db' t @ '' records)'',
                       rule_line]
                      @ statements_of db t @ [[]]
                 else [])"
    by (rule ext) (simp add: table_lines_def section_of_def banner_line_def inc stm)
  have t': "db' tables_query = Completed out"
    using assms(1,3) tables_query_neq_count_query by simp
  have f: "files (main upper db w) output_file
       = Some (join ''\<newline>''
           (header
            @ concat (map (\<lambda>t. if included db t
                               then [rule_line,
                                     ''-- '' @ upper t @ '' ('' @ row_count_of db t @ '' records)'',
                                     rule_line]
                                    @ statements_of db t @ [[]]
                               else [])
                        (stripped_lines (strip out)))
            @ footer))"
    using file_of_run [where db = db and out = out and upper = upper and w = w, OF assms(1,2)] by (simp only: tl)
  have f': "files (main upper db' w) output_file
       = Some (join ''\<newline>''
           (header
            @ concat (map (\<lambda>t. if included db t
                               then [rule_line,
                                     ''-- '' @ upper t @ '' ('' @ row_count_of db' t @ '' records)'',
                                     rule_line]
                                    @ statements_of db t @ [[]]
                               else [])
                        (stripped_lines (strip out)))
            @ footer))"
    using file_of_run [where db = db' and out = out and upper = upper and w = w, OF t' assms(2)] by (simp only: tl')
  have tr: "truthy (query_result db tables_query)"
    using assms(1,2) by (simp add: query_result_def)
  have tr': "truthy (query_result db' tables_query)"
    using tr tq by simp
  have tqs: "table_queries db' = table_queries db"
    by (rule ext) (simp add: table_queries_def cols cof)
  have e: "executed (main upper db' w) = executed (main upper db w)"
    using executed_main_written [OF tr, where upper = upper and w = w]
      executed_main_written [OF tr', where upper = upper and w = w]
    by (simp add: tq tqs)
  have z: "\<forall>t e err. db (count_query t) = CalledProcessError e err \<longrightarrow> row_count_of db t = ''0''"
    by (simp add: row_count_of_def query_result_def)
  have n: "\<forall>t c. db' (count_query t) = Completed c \<and> strip c \<noteq> []
            \<longrightarrow> row_count_of db' t = strip (strip c)"
    by (simp add: row_count_of_def query_result_def)
  show ?thesis
    using f f' e z n by blast
qed

text \<open>The table \<^verbatim>\<open>logs\<close>, whose count query fails, and the same table with the answer 5.\<close>

theorem row_count_only_in_banner_witness:
  "logs_db (count_query ''logs'')
       = CalledProcessError ''Command returned non-zero exit status 2.'' ''connection refused''
   \<and> files (main ascii_upper logs_db w0) output_file
       = Some (join ''\<newline>'' (header @ [rule_line, ''-- LOGS (0 records)'', rule_line, []] @ footer))
   \<and> files (main ascii_upper (logs_db(count_query ''logs'' := Completed '' 5\<newline>'')) w0) output_file
       = Some (join ''\<newline>'' (header @ [rule_line, ''-- LOGS (5 records)'', rule_line, []] @ footer))
   \<and> executed (main ascii_upper (logs_db(count_query ''logs'' := Completed '' 5\<newline>'')) w0)
       = executed (main ascii_upper logs_db w0)"
proof -
  have h2: "strip '' logs\<newline>\<newline>'' \<noteq> []" by (simp add: strip_logs)
  have h3: "\<forall>q. (\<forall>t. q \<noteq> count_query t)
              \<longrightarrow> (logs_db(count_query ''logs'' := Completed '' 5\<newline>'')) q = logs_db q"
    by auto
  have s: "statements_of logs_db ''logs'' = []"
    by (simp add: statements_of_def columns_of_def query_result_def logs_db_columns
        strip_eval_1 stripped_lines_eval_1 logs_db_insert statement_lines_def strip_def isspace_def)
  have c: "logs_db (count_query ''logs'')
       = CalledProcessError ''Command returned non-zero exit status 2.'' ''connection refused''"
    by (simp add: logs_db_count no_database_def)
  have r5: "row_count_of (logs_db(count_query ''logs'' := Completed '' 5\<newline>'')) ''logs'' = ''5''"
    by (simp add: row_count_of_def query_result_def strip_def isspace_def)
  show ?thesis
    using row_count_only_in_banner [where upper = ascii_upper and db = logs_db and w = w0
        and db' = "logs_db(count_query ''logs'' := Completed '' 5\<newline>'')",
        OF logs_db_tables h2 h3]
    by (simp add: strip_logs stripped_lines_logs included_logs c s r5 row_count_of_logs upper_logs)
qed

subsection \<open>C10: blank output and failure\<close>

text \<open>
  C10. Let a query be answered with blank output (empty or whitespace only) in one database
  and fail in another that is otherwise the same. Then the two runs leave the same files
  and run the same queries, and every pass of the loop appends the same lines: no caller
  tells the two apart. In particular a table whose columns query is answered with blank
  output is skipped (the pass appends nothing), and a blank table list aborts the run: no
  file is written and no other query is run. (The runs differ in the two lines that
  \<^verbatim>\<open>run_sql_query\<close> itself prints about a failure.)
\<close>

theorem blank_output_is_failure:
  assumes "strip ws = []"
  shows "files (main upper (db(q := Completed ws)) w)
           = files (main upper (db(q := CalledProcessError e err)) w)
       \<and> executed (main upper (db(q := Completed ws)) w)
           = executed (main upper (db(q := CalledProcessError e err)) w)
       \<and> fst (loop_body upper (db(q := Completed ws)) t (dc, w))
           = fst (loop_body upper (db(q := CalledProcessError e err)) t (dc, w))
       \<and> fst (loop_body upper (db(columns_query t := Completed ws)) t (dc, w)) = dc
       \<and> files (main upper (db(tables_query := Completed ws)) w) = files w
       \<and> executed (main upper (db(tables_query := Completed ws)) w) = executed w @ [tables_query]"
proof -
  have u: "usable (db(q := Completed ws)) = usable (db(q := CalledProcessError e err))"
    using blank_usable [OF assms] .
  have a: "files (main upper (db(q := Completed ws)) w)
           = files (main upper (db(q := CalledProcessError e err)) w)"
    using main_usable(1) [OF u] .
  have b: "executed (main upper (db(q := Completed ws)) w)
           = executed (main upper (db(q := CalledProcessError e err)) w)"
    using main_usable(2) [OF u] .
  have c: "fst (loop_body upper (db(q := Completed ws)) t (dc, w))
           = fst (loop_body upper (db(q := CalledProcessError e err)) t (dc, w))"
    using table_lines_usable [OF u] by (simp add: fst_loop_body)
  have d: "fst (loop_body upper (db(columns_query t := Completed ws)) t (dc, w)) = dc"
    using assms by (simp add: fst_loop_body table_lines_def included_def query_result_def)
  have n: "\<not> truthy (query_result (db(tables_query := Completed ws)) tables_query)"
    using assms by (simp add: query_result_def)
  have f: "files (main upper (db(tables_query := Completed ws)) w) = files w"
    using main_aborted(1) [OF n] .
  have g: "executed (main upper (db(tables_query := Completed ws)) w) = executed w @ [tables_query]"
    using main_aborted(2) [OF n] .
  show ?thesis
    using a b c d f g by simp
qed

text \<open>The scenario with a table list, and with a column list, of one space and a newline.\<close>

theorem blank_output_is_failure_witness:
  "strip '' \<newline>'' = []
   \<and> files (main ascii_upper (example_db(tables_query := Completed '' \<newline>'')) w0) = Map.empty
   \<and> executed (main ascii_upper (example_db(tables_query := Completed '' \<newline>'')) w0) = [tables_query]
   \<and> files (main ascii_upper (example_db(tables_query := CalledProcessError ''failed'' '''')) w0) = Map.empty
   \<and> fst (loop_body ascii_upper (example_db(columns_query ''users'' := Completed '' \<newline>'')) ''users'' (header, w0))
       = header"
proof -
  have h: "strip '' \<newline>'' = []"
    by (simp add: strip_def isspace_def)
  have fw: "files w0 = Map.empty" and ew: "executed w0 = []"
    by (simp_all add: w0_def)
  show ?thesis
    using h blank_output_is_failure [where upper = ascii_upper and db = example_db and q = tables_query and t = "''users''"
        and dc = header and w = w0 and e = "''failed''" and err = "''''", OF h]
    by (auto simp add: fw ew)
qed

end
